theory Spec2Isabelle
  imports Main
begin

section \<open>The connection lifecycle of app.js\<close>

text \<open>
  The module keeps its lifecycle in five module-level variables (app.js, lines 43-48):
  \<^verbatim>\<open>client\<close>, \<^verbatim>\<open>isClientReady\<close>, \<^verbatim>\<open>qrCodeString\<close>, \<^verbatim>\<open>initializationAttempts\<close>
  and \<^verbatim>\<open>isInitializing\<close>. They are the first five fields of the record below, under
  their own names. A client object is represented by the number of the
  \<^verbatim>\<open>createClient()\<close> call that made it; \<^verbatim>\<open>null\<close> is \<open>None\<close>.

  The remaining fields record what the code does to its surroundings, so that the
  effects can be stated: the timers registered with \<^verbatim>\<open>setTimeout\<close> and not yet fired,
  the number of calls of \<^verbatim>\<open>cleanSession()\<close> (each one removes the session directory
  with \<^verbatim>\<open>fs.rm\<close>; a failure of the removal is caught and logged inside \<^verbatim>\<open>cleanSession\<close>),
  the number of clients created, and the clients on which \<^verbatim>\<open>destroy()\<close> was called
  (an exception of \<^verbatim>\<open>destroy()\<close> is caught and logged at every call site).

  Each function and each event handler of the source is first one function on this
  record, which runs from the first statement to the last, as the handler does when
  every call it awaits settles before the single JavaScript thread takes up anything
  else. The same code is then cut at its awaits (subsection "Tasks between awaits"),
  so that other handlers can run while a function is suspended. Console output is left
  out. The attempt counter is a JavaScript number that is only ever set to 0 and
  incremented; it is a natural number here.
\<close>

definition MAX_INIT_ATTEMPTS :: nat where
  "MAX_INIT_ATTEMPTS = 3"

text \<open>Every timer of the source has the same callback, \<^verbatim>\<open>() => initializeClient()\<close>.\<close>

datatype callback = InitializeClient

record state =
  client :: "nat option"
  isClientReady :: bool
  qrCodeString :: "string option"
  initializationAttempts :: nat
  isInitializing :: bool
  timers :: "(callback \<times> nat) list"
  sessionCleans :: nat
  created :: nat
  destroyed :: "nat list"

text \<open>The values of the module-level declarations, before \<^verbatim>\<open>startServer()\<close> runs.\<close>

definition initial_state :: state where
  "initial_state =
     \<lparr>client = None, isClientReady = False, qrCodeString = None,
      initializationAttempts = 0, isInitializing = False,
      timers = [], sessionCleans = 0, created = 0, destroyed = []\<rparr>"

text \<open>\<^verbatim>\<open>cleanSession()\<close>, lines 32-40.\<close>

definition cleanSession :: "state \<Rightarrow> state" where
  "cleanSession s = s\<lparr>sessionCleans := sessionCleans s + 1\<rparr>"

text \<open>\<^verbatim>\<open>setTimeout(cb, ms)\<close>: the timer joins the pending ones.\<close>

definition setTimeout :: "callback \<Rightarrow> nat \<Rightarrow> state \<Rightarrow> state" where
  "setTimeout cb ms s = s\<lparr>timers := timers s @ [(cb, ms)]\<rparr>"

text \<open>
  \<^verbatim>\<open>if (client) { try { await client.destroy(); } catch (error) { ... } }\<close>, as it
  stands in \<^verbatim>\<open>initializeClient\<close>, \<^verbatim>\<open>/restart\<close> and \<^verbatim>\<open>/clean-session\<close>. The variable
  \<^verbatim>\<open>client\<close> keeps pointing at the destroyed object.
\<close>

definition destroyClient :: "state \<Rightarrow> state" where
  "destroyClient s =
     (case client s of
        None \<Rightarrow> s
      | Some c \<Rightarrow> s\<lparr>destroyed := destroyed s @ [c]\<rparr>)"

text \<open>\<^verbatim>\<open>client = createClient()\<close>, line 109.\<close>

definition createClient :: "state \<Rightarrow> state" where
  "createClient s = s\<lparr>client := Some (created s), created := created s + 1\<rparr>"

text \<open>
  \<^verbatim>\<open>initializeClient()\<close>, lines 83-170. The argument \<open>init_ok\<close> says whether
  \<^verbatim>\<open>await client.initialize()\<close> returns (\<open>True\<close>) or throws (\<open>False\<close>). Registering the
  event handlers (lines 112-157) changes no variable; the handlers are the functions
  \<open>on_qr\<close> to \<open>on_disconnected\<close> below.
\<close>

definition initializeClient :: "bool \<Rightarrow> state \<Rightarrow> state" where
  "initializeClient init_ok s =
     (if isInitializing s then s
      else
        let s1 = (if initializationAttempts s \<ge> MAX_INIT_ATTEMPTS
                  then (cleanSession s)\<lparr>initializationAttempts := 0\<rparr>
                  else s);
            s2 = s1\<lparr>isInitializing := True\<rparr>;
            s3 = s2\<lparr>initializationAttempts := initializationAttempts s2 + 1\<rparr>;
            s4 = destroyClient s3;
            s5 = createClient s4
        in if init_ok then s5
           else
             let s6 = s5\<lparr>isInitializing := False\<rparr>
             in if initializationAttempts s6 < MAX_INIT_ATTEMPTS
                then setTimeout InitializeClient 5000 s6
                else s6)"

subsection \<open>The event handlers of the client\<close>

text \<open>\<^verbatim>\<open>client.on('qr', ...)\<close>, lines 112-116.\<close>

definition on_qr :: "string \<Rightarrow> state \<Rightarrow> state" where
  "on_qr qr s = s\<lparr>qrCodeString := Some qr\<rparr>"

text \<open>\<^verbatim>\<open>client.on('authenticated', ...)\<close>, lines 118-121.\<close>

definition on_authenticated :: "state \<Rightarrow> state" where
  "on_authenticated s = s\<lparr>qrCodeString := None\<rparr>"

text \<open>\<^verbatim>\<open>client.on('ready', ...)\<close>, lines 123-129.\<close>

definition on_ready :: "state \<Rightarrow> state" where
  "on_ready s =
     s\<lparr>isClientReady := True, qrCodeString := None,
       initializationAttempts := 0, isInitializing := False\<rparr>"

text \<open>\<^verbatim>\<open>client.on('auth_failure', ...)\<close>, lines 131-142.\<close>

definition on_auth_failure :: "string \<Rightarrow> state \<Rightarrow> state" where
  "on_auth_failure msg s =
     (let s1 = s\<lparr>isClientReady := False\<rparr>;
          s2 = s1\<lparr>isInitializing := False\<rparr>
      in if initializationAttempts s2 < MAX_INIT_ATTEMPTS
         then setTimeout InitializeClient 5000 (cleanSession s2)
         else s2)"

text \<open>\<^verbatim>\<open>client.on('disconnected', ...)\<close>, lines 144-153.\<close>

definition on_disconnected :: "string \<Rightarrow> state \<Rightarrow> state" where
  "on_disconnected reason s =
     (let s1 = s\<lparr>isClientReady := False\<rparr>
      in if reason \<noteq> ''LOGOUT''
         then setTimeout InitializeClient 10000 s1
         else s1)"

text \<open>\<^verbatim>\<open>client.on('loading_screen', ...)\<close>, lines 155-157: it only logs.\<close>

definition on_loading_screen :: "nat \<Rightarrow> string \<Rightarrow> state \<Rightarrow> state" where
  "on_loading_screen percent message s = s"

subsection \<open>The HTTP surface\<close>

text \<open>
  A response is its status code and its JSON body. The \<^verbatim>\<open>timestamp\<close> members, which
  read the clock, are left out of the bodies.
\<close>

datatype body =
    NotReady (nr_error: string) (nr_qrCode: "string option") (nr_message: string)
  | Health (h_status: string) (h_qrCode: "string option") (h_initializationAttempts: nat)
      (h_maxAttempts: nat) (h_isInitializing: bool)
  | Message string
  | QrCode "string option"
  | ServerError (e_error: string) (e_message: string)

datatype response = Response (code: nat) (payload: body)

text \<open>
  \<^verbatim>\<open>requireClientReady\<close>, lines 173-182: either the middleware answers itself
  (\<open>Rejected\<close>) or it calls \<^verbatim>\<open>next()\<close>. The condition of
  \<^verbatim>\<open>qrCodeString ? 'Please scan QR code' : 'Client initializing...'\<close> is JavaScript
  truthiness: \<^verbatim>\<open>null\<close> and the empty string both select the second message.
\<close>

datatype gate = Next | Rejected response

definition truthy :: "string option \<Rightarrow> bool" where
  "truthy v = (case v of None \<Rightarrow> False | Some x \<Rightarrow> x \<noteq> [])"

definition requireClientReady :: "state \<Rightarrow> gate \<times> state" where
  "requireClientReady s =
     (if \<not> isClientReady s
      then (Rejected (Response 503
              (NotReady ''WhatsApp client not ready'' (qrCodeString s)
                 (if truthy (qrCodeString s) then ''Please scan QR code''
                  else ''Client initializing...''))), s)
      else (Next, s))"

text \<open>The error handling middleware, lines 594-601, applied to an error with this message.\<close>

definition error_middleware :: "string \<Rightarrow> response" where
  "error_middleware msg = Response 500 (ServerError ''Internal server error'' msg)"

text \<open>\<^verbatim>\<open>GET /health\<close>, lines 190-199.\<close>

definition get_health :: "state \<Rightarrow> response \<times> state" where
  "get_health s =
     (Response 200
        (Health (if isClientReady s then ''ready''
                 else if isInitializing s then ''initializing'' else ''not_ready'')
           (qrCodeString s) (initializationAttempts s) MAX_INIT_ATTEMPTS (isInitializing s)),
      s)"

text \<open>\<^verbatim>\<open>POST /restart\<close>, lines 202-217.\<close>

definition post_restart :: "bool \<Rightarrow> state \<Rightarrow> response \<times> state" where
  "post_restart init_ok s =
     (let s1 = s\<lparr>isClientReady := False\<rparr>;
          s2 = s1\<lparr>initializationAttempts := 0\<rparr>;
          s3 = destroyClient s2;
          s4 = initializeClient init_ok s3
      in (Response 200 (Message ''Client restart initiated''), s4))"

text \<open>\<^verbatim>\<open>POST /clean-session\<close>, lines 220-239.\<close>

definition post_clean_session :: "state \<Rightarrow> response \<times> state" where
  "post_clean_session s =
     (let s1 = destroyClient s;
          s2 = cleanSession s1;
          s3 = s2\<lparr>isClientReady := False\<rparr>;
          s4 = s3\<lparr>initializationAttempts := 0\<rparr>;
          s5 = setTimeout InitializeClient 2000 s4
      in (Response 200 (Message ''Session cleaned and client reinitialized''), s5))"

text \<open>
  \<^verbatim>\<open>POST /logout\<close>, lines 242-246, behind \<^verbatim>\<open>requireClientReady\<close> and inside
  \<^verbatim>\<open>asyncHandler\<close>, which hands a rejection to the error handling middleware. The
  argument is the outcome of \<^verbatim>\<open>await client.logout()\<close>: \<open>Inl msg\<close> when it throws an
  error with message \<open>msg\<close>, \<open>Inr ()\<close> when it returns. With \<^verbatim>\<open>client\<close> still
  \<^verbatim>\<open>null\<close> the member access itself throws a TypeError.
\<close>

definition post_logout :: "string + unit \<Rightarrow> state \<Rightarrow> response \<times> state" where
  "post_logout outcome s =
     (case requireClientReady s of
        (Rejected r, s') \<Rightarrow> (r, s')
      | (Next, s') \<Rightarrow>
          (case client s' of
             None \<Rightarrow>
               (error_middleware ''Cannot read properties of null (reading 'logout')'', s')
           | Some c \<Rightarrow>
               (case outcome of
                  Inl msg \<Rightarrow> (error_middleware msg, s')
                | Inr u \<Rightarrow>
                    (Response 200 (Message ''Logged out successfully''),
                     s'\<lparr>isClientReady := False\<rparr>))))"

text \<open>\<^verbatim>\<open>GET /qr\<close>, lines 249-254.\<close>

definition get_qr :: "state \<Rightarrow> response \<times> state" where
  "get_qr s =
     (if isClientReady s then (Response 200 (Message ''Client already authenticated''), s)
      else (Response 200 (QrCode (qrCodeString s)), s))"

subsection \<open>Runs of the manager\<close>

text \<open>
  \<^verbatim>\<open>startServer()\<close>, lines 604-624, is called once when the module is loaded: it
  creates the directories and calls \<^verbatim>\<open>initializeClient()\<close> on the initial values of
  the variables.
\<close>

definition startServer :: "bool \<Rightarrow> state" where
  "startServer init_ok = initializeClient init_ok initial_state"

text \<open>
  What can happen to the module afterwards: a client emits an event, a pending timer
  fires (any of them: the clock is not part of the model), or a request of the status
  and control surface arrives. A timer is named by its position among the pending ones;
  a position that holds no timer changes nothing.
\<close>

datatype event =
    Qr string
  | Authenticated
  | Ready
  | AuthFailure string
  | Disconnected string
  | LoadingScreen nat string
  | TimerFired nat bool
  | GetHealth
  | PostRestart bool
  | PostCleanSession
  | PostLogout "string + unit"
  | GetQr

definition fire_timer :: "nat \<Rightarrow> bool \<Rightarrow> state \<Rightarrow> state" where
  "fire_timer i init_ok s =
     (if i < length (timers s)
      then (case fst (timers s ! i) of
              InitializeClient \<Rightarrow>
                initializeClient init_ok
                  (s\<lparr>timers := take i (timers s) @ drop (Suc i) (timers s)\<rparr>))
      else s)"

fun step :: "event \<Rightarrow> state \<Rightarrow> state" where
  "step (Qr qr) s = on_qr qr s"
| "step Authenticated s = on_authenticated s"
| "step Ready s = on_ready s"
| "step (AuthFailure msg) s = on_auth_failure msg s"
| "step (Disconnected reason) s = on_disconnected reason s"
| "step (LoadingScreen percent message) s = on_loading_screen percent message s"
| "step (TimerFired i init_ok) s = fire_timer i init_ok s"
| "step GetHealth s = snd (get_health s)"
| "step (PostRestart init_ok) s = snd (post_restart init_ok s)"
| "step PostCleanSession s = snd (post_clean_session s)"
| "step (PostLogout outcome) s = snd (post_logout outcome s)"
| "step GetQr s = snd (get_qr s)"

fun run :: "event list \<Rightarrow> state \<Rightarrow> state" where
  "run [] s = s"
| "run (e # es) s = run es (step e s)"


subsection \<open>Tasks between awaits\<close>

text \<open>
  An \<^verbatim>\<open>async\<close> function runs up to its first \<^verbatim>\<open>await\<close>, is suspended there, and
  goes on in a later task, when the awaited promise has settled; handlers of other
  events may run in between. The functions above let every handler run from its first
  statement to its last. What follows cuts the same code at each \<^verbatim>\<open>await\<close> that is
  followed by an assignment or a call: a suspended function is named by the place
  where it waits.
\<close>

datatype suspended =
    Init_await_cleanSession
  | Init_await_destroy
  | Init_await_initialize
  | AuthFailure_await_cleanSession
  | Restart_await_destroy
  | Clean_await_destroy
  | Clean_await_cleanSession
  | Logout_await_logout

text \<open>
  \<^verbatim>\<open>initializeClient()\<close> from line 108 on: the client is created, its handlers are
  registered and \<^verbatim>\<open>client.initialize()\<close> is awaited (line 160).
\<close>

definition begin_create :: "state \<Rightarrow> state \<times> suspended list" where
  "begin_create s = (createClient s, [Init_await_initialize])"

text \<open>
  \<^verbatim>\<open>initializeClient()\<close> from line 95 on: the lock is taken and the attempt counted;
  with a previous client, \<^verbatim>\<open>client.destroy()\<close> is called and awaited (line 102),
  without one the function goes straight on to line 108.
\<close>

definition begin_attempt :: "state \<Rightarrow> state \<times> suspended list" where
  "begin_attempt s =
     (let s2 = s\<lparr>isInitializing := True\<rparr>;
          s3 = s2\<lparr>initializationAttempts := initializationAttempts s2 + 1\<rparr>
      in case client s3 of
           None \<Rightarrow> begin_create s3
         | Some c \<Rightarrow> (destroyClient s3, [Init_await_destroy]))"

text \<open>
  A call of \<^verbatim>\<open>initializeClient()\<close>, up to its first \<^verbatim>\<open>await\<close>: the guard, then at the
  ceiling the call of \<^verbatim>\<open>cleanSession()\<close>, awaited at line 91.
\<close>

definition begin_initializeClient :: "state \<Rightarrow> state \<times> suspended list" where
  "begin_initializeClient s =
     (if isInitializing s then (s, [])
      else if initializationAttempts s \<ge> MAX_INIT_ATTEMPTS
      then (cleanSession s, [Init_await_cleanSession])
      else begin_attempt s)"

text \<open>
  A suspended function goes on. The flag says whether the awaited promise was fulfilled
  (\<open>True\<close>) or rejected (\<open>False\<close>); \<^verbatim>\<open>cleanSession()\<close> never rejects, and a rejection
  of \<^verbatim>\<open>destroy()\<close> is caught and logged, so the flag matters for
  \<^verbatim>\<open>client.initialize()\<close> (whose \<^verbatim>\<open>catch\<close> block is lines 161-169) and for
  \<^verbatim>\<open>client.logout()\<close> only.
\<close>

fun resume :: "suspended \<Rightarrow> bool \<Rightarrow> state \<Rightarrow> state \<times> suspended list" where
  "resume Init_await_cleanSession fulfilled s =
     begin_attempt (s\<lparr>initializationAttempts := 0\<rparr>)"
| "resume Init_await_destroy fulfilled s = begin_create s"
| "resume Init_await_initialize fulfilled s =
     (if fulfilled then (s, [])
      else
        let s6 = s\<lparr>isInitializing := False\<rparr>
        in if initializationAttempts s6 < MAX_INIT_ATTEMPTS
           then (setTimeout InitializeClient 5000 s6, [])
           else (s6, []))"
| "resume AuthFailure_await_cleanSession fulfilled s =
     (setTimeout InitializeClient 5000 s, [])"
| "resume Restart_await_destroy fulfilled s = begin_initializeClient s"
| "resume Clean_await_destroy fulfilled s = (cleanSession s, [Clean_await_cleanSession])"
| "resume Clean_await_cleanSession fulfilled s =
     (let s3 = s\<lparr>isClientReady := False\<rparr>;
          s4 = s3\<lparr>initializationAttempts := 0\<rparr>
      in (setTimeout InitializeClient 2000 s4, []))"
| "resume Logout_await_logout fulfilled s =
     (if fulfilled then (s\<lparr>isClientReady := False\<rparr>, []) else (s, []))"

text \<open>
  What starts a task from outside: an event of a client, a timer, a request. Each
  handler runs up to its first \<^verbatim>\<open>await\<close>, or to its end when it has none.
\<close>

datatype trigger =
    Emit_qr string
  | Emit_authenticated
  | Emit_ready
  | Emit_auth_failure string
  | Emit_disconnected string
  | Emit_loading_screen nat string
  | Fire nat
  | Get_health
  | Post_restart
  | Post_clean_session
  | Post_logout
  | Get_qr

fun start :: "trigger \<Rightarrow> state \<Rightarrow> state \<times> suspended list" where
  "start (Emit_qr qr) s = (on_qr qr s, [])"
| "start Emit_authenticated s = (on_authenticated s, [])"
| "start Emit_ready s = (on_ready s, [])"
| "start (Emit_auth_failure msg) s =
     (let s1 = s\<lparr>isClientReady := False\<rparr>;
          s2 = s1\<lparr>isInitializing := False\<rparr>
      in if initializationAttempts s2 < MAX_INIT_ATTEMPTS
         then (cleanSession s2, [AuthFailure_await_cleanSession])
         else (s2, []))"
| "start (Emit_disconnected reason) s = (on_disconnected reason s, [])"
| "start (Emit_loading_screen percent message) s = (on_loading_screen percent message s, [])"
| "start (Fire i) s =
     (if i < length (timers s)
      then (case fst (timers s ! i) of
              InitializeClient \<Rightarrow>
                begin_initializeClient
                  (s\<lparr>timers := take i (timers s) @ drop (Suc i) (timers s)\<rparr>))
      else (s, []))"
| "start Get_health s = (snd (get_health s), [])"
| "start Post_restart s =
     (let s1 = s\<lparr>isClientReady := False\<rparr>;
          s2 = s1\<lparr>initializationAttempts := 0\<rparr>
      in case client s2 of
           None \<Rightarrow> begin_initializeClient s2
         | Some c \<Rightarrow> (destroyClient s2, [Restart_await_destroy]))"
| "start Post_clean_session s =
     (case client s of
        None \<Rightarrow> (cleanSession s, [Clean_await_cleanSession])
      | Some c \<Rightarrow> (destroyClient s, [Clean_await_destroy]))"
| "start Post_logout s =
     (if \<not> isClientReady s then (s, [])
      else case client s of
             None \<Rightarrow> (s, [])
           | Some c \<Rightarrow> (s, [Logout_await_logout]))"
| "start Get_qr s = (snd (get_qr s), [])"

text \<open>
  A task either starts a handler or lets one of the suspended functions go on, any of
  them: the order in which promises settle is not fixed by the module. The functions
  suspended by the task wait with the others.
\<close>

datatype task = Begin trigger | Settle nat bool

fun task_step :: "task \<Rightarrow> state \<times> suspended list \<Rightarrow> state \<times> suspended list" where
  "task_step (Begin t) (s, waiting) =
     (case start t s of (s', new) \<Rightarrow> (s', waiting @ new))"
| "task_step (Settle i fulfilled) (s, waiting) =
     (if i < length waiting
      then (case resume (waiting ! i) fulfilled s of
              (s', new) \<Rightarrow> (s', take i waiting @ drop (Suc i) waiting @ new))
      else (s, waiting))"

fun task_run :: "task list \<Rightarrow> state \<times> suspended list \<Rightarrow> state \<times> suspended list" where
  "task_run [] cfg = cfg"
| "task_run (t # ts) cfg = task_run ts (task_step t cfg)"

text \<open>
  The tasks of one handler that runs to its end with nothing in between: it starts, and
  each promise it awaits settles at once. A handler of the lifecycle awaits at most four
  times (\<^verbatim>\<open>/restart\<close>: one \<^verbatim>\<open>destroy()\<close>, then the three of \<^verbatim>\<open>initializeClient()\<close>);
  settling when nothing waits changes nothing.
\<close>

fun to_completion :: "event \<Rightarrow> task list" where
  "to_completion (Qr qr) = [Begin (Emit_qr qr)]"
| "to_completion Authenticated = [Begin Emit_authenticated]"
| "to_completion Ready = [Begin Emit_ready]"
| "to_completion (AuthFailure msg) = [Begin (Emit_auth_failure msg), Settle 0 True]"
| "to_completion (Disconnected reason) = [Begin (Emit_disconnected reason)]"
| "to_completion (LoadingScreen percent message) = [Begin (Emit_loading_screen percent message)]"
| "to_completion (TimerFired i init_ok) =
     [Begin (Fire i), Settle 0 init_ok, Settle 0 init_ok, Settle 0 init_ok]"
| "to_completion GetHealth = [Begin Get_health]"
| "to_completion (PostRestart init_ok) =
     [Begin Post_restart, Settle 0 init_ok, Settle 0 init_ok, Settle 0 init_ok, Settle 0 init_ok]"
| "to_completion PostCleanSession = [Begin Post_clean_session, Settle 0 True, Settle 0 True]"
| "to_completion (PostLogout outcome) =
     [Begin Post_logout, Settle 0 (case outcome of Inl msg \<Rightarrow> False | Inr u \<Rightarrow> True)]"
| "to_completion GetQr = [Begin Get_qr]"

section \<open>Properties\<close>

subsection \<open>Unfolding and evaluation\<close>

lemmas handler_defs =
  initializeClient_def cleanSession_def setTimeout_def destroyClient_def createClient_def
  on_qr_def on_authenticated_def on_ready_def on_auth_failure_def on_disconnected_def
  on_loading_screen_def

lemmas eval_defs =
  handler_defs startServer_def initial_state_def fire_timer_def MAX_INIT_ATTEMPTS_def Let_def
  get_health_def get_qr_def post_restart_def post_clean_session_def post_logout_def
  requireClientReady_def error_middleware_def truthy_def

text \<open>The state in which \<^verbatim>\<open>startServer()\<close> leaves the module when the client starts.\<close>

lemma startServer_True:
  "startServer True =
     \<lparr>client = Some 0, isClientReady = False, qrCodeString = None,
      initializationAttempts = 1, isInitializing = True, timers = [],
      sessionCleans = 0, created = 1, destroyed = []\<rparr>"
  by (simp add: eval_defs)

text \<open>
  Two failed authentications, each followed by its retry: the third initialization is
  under way, and the counter has reached the ceiling.
\<close>

lemma third_attempt_running:
  "run [AuthFailure m1, TimerFired 0 True, AuthFailure m2, TimerFired 0 True]
     (startServer True) =
     \<lparr>client = Some 2, isClientReady = False, qrCodeString = None,
      initializationAttempts = 3, isInitializing = True, timers = [],
      sessionCleans = 2, created = 3, destroyed = [0, 1]\<rparr>"
  by (simp add: eval_defs)

text \<open>The third failure after that: the retries are used up.\<close>

lemma retries_used_up:
  "run [AuthFailure m1, TimerFired 0 True, AuthFailure m2, TimerFired 0 True, AuthFailure m3]
     (startServer True) =
     \<lparr>client = Some 2, isClientReady = False, qrCodeString = None,
      initializationAttempts = 3, isInitializing = False, timers = [],
      sessionCleans = 2, created = 3, destroyed = [0, 1]\<rparr>"
  by (simp add: eval_defs)

text \<open>The state after a code was shown, the session authenticated and the client ready.\<close>

lemma connected:
  "run [Qr q, Authenticated, Ready] (startServer True) =
     \<lparr>client = Some 0, isClientReady = True, qrCodeString = None,
      initializationAttempts = 0, isInitializing = False, timers = [],
      sessionCleans = 0, created = 1, destroyed = []\<rparr>"
  by (simp add: eval_defs)

lemma run_append: "run (es @ es') s = run es' (run es s)"
  by (induction es arbitrary: s) simp_all

subsection \<open>Handlers run to their end, as tasks\<close>

text \<open>
  Letting a handler run to its end is one of the schedules of its tasks: the one in
  which every promise it awaits settles before anything else happens. So every run of
  whole handlers is a run of tasks.
\<close>

lemma task_run_append: "task_run (ts @ ts') cfg = task_run ts' (task_run ts cfg)"
  by (induction ts arbitrary: cfg) simp_all

lemma initializeClient_to_completion:
  "task_run [Settle 0 init_ok, Settle 0 init_ok, Settle 0 init_ok]
     (begin_initializeClient s) = (initializeClient init_ok s, [])"
  by (simp add: begin_initializeClient_def begin_attempt_def begin_create_def
      initializeClient_def Let_def destroyClient_def createClient_def cleanSession_def
      setTimeout_def split: option.splits)

lemma step_to_completion:
  "task_run (to_completion e) (s, []) = (step e s, [])"
proof (cases e)
  case (TimerFired i init_ok)
  then show ?thesis
    using initializeClient_to_completion
    by (simp add: fire_timer_def split: callback.splits prod.splits)
next
  case (PostRestart init_ok)
  show ?thesis
  proof (cases "client s")
    case None
    with PostRestart show ?thesis
      using initializeClient_to_completion
        [of init_ok "s\<lparr>isClientReady := False, initializationAttempts := 0\<rparr>"]
      by (simp add: post_restart_def Let_def destroyClient_def split: prod.splits)
  next
    case (Some c)
    with PostRestart show ?thesis
      using initializeClient_to_completion
        [of init_ok "s\<lparr>isClientReady := False, initializationAttempts := 0,
                       destroyed := destroyed s @ [c]\<rparr>"]
      by (simp add: post_restart_def Let_def destroyClient_def split: prod.splits)
  qed
next
  case (AuthFailure msg)
  then show ?thesis
    by (simp add: on_auth_failure_def Let_def)
next
  case PostCleanSession
  then show ?thesis
    by (simp add: post_clean_session_def Let_def destroyClient_def split: option.splits)
next
  case (PostLogout outcome)
  then show ?thesis
    by (simp add: post_logout_def requireClientReady_def split: option.splits sum.splits)
qed simp_all

lemma run_to_completion:
  "task_run (concat (map to_completion es)) (s, []) = (run es s, [])"
  by (induction es arbitrary: s) (simp_all add: task_run_append step_to_completion)

lemma startServer_to_completion:
  "task_run [Settle 0 init_ok] (begin_initializeClient initial_state) =
     (startServer init_ok, [])"
  by (simp add: eval_defs begin_initializeClient_def begin_attempt_def begin_create_def)

subsection \<open>The re-entrancy guard\<close>

text \<open>
  C5. A call of \<^verbatim>\<open>initializeClient()\<close> while \<^verbatim>\<open>isInitializing\<close> is set returns at
  once: the whole state is the one before the call, so no client is created, none is
  destroyed, the attempt counter is unchanged and no other variable, timer or session
  data is touched. This holds whether or not \<^verbatim>\<open>client.initialize()\<close> would have
  succeeded.
\<close>

theorem initializeClient_locked_noop:
  "isInitializing s \<Longrightarrow> initializeClient init_ok s = s"
  by (simp add: initializeClient_def)

theorem initializeClient_locked_noop_witness:
  "isInitializing (startServer True) \<and>
   initializeClient False (startServer True) = startServer True \<and>
   client (initializeClient False (startServer True)) = Some 0 \<and>
   initializationAttempts (initializeClient False (startServer True)) = 1"
proof -
  have locked: "isInitializing (startServer True)"
    by (simp add: startServer_True)
  from initializeClient_locked_noop [OF locked, of False]
  have same: "initializeClient False (startServer True) = startServer True" .
  have "client (startServer True) = Some 0 \<and> initializationAttempts (startServer True) = 1"
    by (simp add: startServer_True)
  with locked same show ?thesis by simp
qed

subsection \<open>The attempt ceiling\<close>

text \<open>First with every handler running to its end.\<close>

lemma initializeClient_attempts_le:
  assumes "initializationAttempts s \<le> MAX_INIT_ATTEMPTS"
  shows "initializationAttempts (initializeClient init_ok s) \<le> MAX_INIT_ATTEMPTS"
  using assms
  by (auto simp: handler_defs Let_def MAX_INIT_ATTEMPTS_def split: option.splits)

lemma step_attempts_le:
  assumes le: "initializationAttempts s \<le> MAX_INIT_ATTEMPTS"
  shows "initializationAttempts (step e s) \<le> MAX_INIT_ATTEMPTS"
proof (cases e)
  case (TimerFired i b)
  then show ?thesis
    using le
      initializeClient_attempts_le
        [of "s\<lparr>timers := take i (timers s) @ drop (Suc i) (timers s)\<rparr>" b]
    by (simp add: fire_timer_def split: callback.splits)
next
  case (PostRestart b)
  then show ?thesis
    using initializeClient_attempts_le
        [of "destroyClient (s\<lparr>isClientReady := False, initializationAttempts := 0\<rparr>)" b]
    by (simp add: post_restart_def Let_def destroyClient_def split: option.splits)
next
  case (PostLogout outcome)
  then show ?thesis
    using le
    by (simp add: post_logout_def requireClientReady_def split: option.splits sum.splits)
qed (use le in \<open>simp_all add: handler_defs Let_def get_health_def get_qr_def
       post_clean_session_def\<close>)

lemma run_attempts_le:
  "initializationAttempts s \<le> MAX_INIT_ATTEMPTS \<Longrightarrow>
   initializationAttempts (run es s) \<le> MAX_INIT_ATTEMPTS"
  by (induction es arbitrary: s) (simp_all add: step_attempts_le)

lemma startServer_attempts_le:
  "initializationAttempts (startServer init_ok) \<le> MAX_INIT_ATTEMPTS"
  unfolding startServer_def
  by (rule initializeClient_attempts_le) (simp add: initial_state_def)

text \<open>
  Then with the handlers cut at their awaits. The attempt is counted in the same task
  as the test against the ceiling, or in the same task as the reset that follows the
  cleaning, so nothing that runs in between can push the counter over the ceiling.
\<close>

lemma begin_create_attempts:
  "initializationAttempts (fst (begin_create s)) = initializationAttempts s"
  by (simp add: begin_create_def createClient_def)

lemma begin_attempt_attempts:
  "initializationAttempts (fst (begin_attempt s)) = initializationAttempts s + 1"
  by (simp add: begin_attempt_def begin_create_def createClient_def destroyClient_def Let_def
      split: option.splits)

lemma begin_initializeClient_attempts_le:
  assumes "initializationAttempts s \<le> MAX_INIT_ATTEMPTS"
  shows "initializationAttempts (fst (begin_initializeClient s)) \<le> MAX_INIT_ATTEMPTS"
  using assms
  by (simp add: begin_initializeClient_def begin_attempt_attempts cleanSession_def)

lemma resume_attempts_le:
  assumes "initializationAttempts s \<le> MAX_INIT_ATTEMPTS"
  shows "initializationAttempts (fst (resume c fulfilled s)) \<le> MAX_INIT_ATTEMPTS"
proof (cases c)
  case Init_await_cleanSession
  then show ?thesis
    by (simp add: begin_attempt_attempts MAX_INIT_ATTEMPTS_def)
next
  case Restart_await_destroy
  then show ?thesis
    using assms by (simp add: begin_initializeClient_attempts_le)
qed (use assms in \<open>simp_all add: begin_create_attempts setTimeout_def cleanSession_def
       Let_def\<close>)

lemma start_attempts_le:
  assumes le: "initializationAttempts s \<le> MAX_INIT_ATTEMPTS"
  shows "initializationAttempts (fst (start t s)) \<le> MAX_INIT_ATTEMPTS"
proof (cases t)
  case (Fire i)
  then show ?thesis
    using le
      begin_initializeClient_attempts_le
        [of "s\<lparr>timers := take i (timers s) @ drop (Suc i) (timers s)\<rparr>"]
    by (simp split: callback.splits)
next
  case Post_restart
  then show ?thesis
    using begin_initializeClient_attempts_le
        [of "s\<lparr>isClientReady := False, initializationAttempts := 0\<rparr>"]
    by (simp add: Let_def destroyClient_def split: option.splits)
qed (use le in \<open>simp_all add: handler_defs Let_def get_health_def get_qr_def
       split: option.splits\<close>)

lemma task_step_attempts_le:
  assumes "initializationAttempts (fst cfg) \<le> MAX_INIT_ATTEMPTS"
  shows "initializationAttempts (fst (task_step t cfg)) \<le> MAX_INIT_ATTEMPTS"
proof (cases cfg)
  case (Pair s waiting)
  show ?thesis
  proof (cases t)
    case (Begin tr)
    obtain s' new where st: "start tr s = (s', new)"
      by (cases "start tr s")
    with Pair assms start_attempts_le [of s tr]
    have "initializationAttempts s' \<le> MAX_INIT_ATTEMPTS"
      by simp
    with Pair Begin st show ?thesis
      by simp
  next
    case (Settle i fulfilled)
    obtain s' new where re: "resume (waiting ! i) fulfilled s = (s', new)"
      by (cases "resume (waiting ! i) fulfilled s")
    with Pair assms resume_attempts_le [of s "waiting ! i" fulfilled]
    have "initializationAttempts s' \<le> MAX_INIT_ATTEMPTS"
      by simp
    with Pair Settle re assms show ?thesis
      by simp
  qed
qed

lemma task_run_attempts_le:
  "initializationAttempts (fst cfg) \<le> MAX_INIT_ATTEMPTS \<Longrightarrow>
   initializationAttempts (fst (task_run ts cfg)) \<le> MAX_INIT_ATTEMPTS"
  by (induction ts arbitrary: cfg) (simp_all add: task_step_attempts_le)

text \<open>
  C1. After \<^verbatim>\<open>startServer()\<close>, whatever events, timers and requests follow, in
  whatever order the awaited promises settle and whether or not each
  \<^verbatim>\<open>client.initialize()\<close> succeeds, the attempt counter is at most
  \<^verbatim>\<open>MAX_INIT_ATTEMPTS\<close> (it is a natural number, so it lies between 0 and the ceiling);
  this is stated for the tasks cut at the awaits and for the handlers run to their end.
  A call of \<^verbatim>\<open>initializeClient()\<close> that finds the counter at or beyond the ceiling and
  counts a new attempt, that is, one that the re-entrancy guard lets through, first
  cleans the session and sets the counter to 0, so that the new attempt is attempt 1:
  the call starts by calling \<^verbatim>\<open>cleanSession()\<close> and waits for it, and whatever state
  it finds when it goes on, it leaves the counter at 1. A call that the guard stops
  counts no attempt and changes nothing (claim C5).
\<close>

theorem attempts_bounded_by_reset:
  "initializationAttempts (fst (task_run ts (begin_initializeClient initial_state)))
     \<le> MAX_INIT_ATTEMPTS \<and>
   initializationAttempts (run es (startServer ok0)) \<le> MAX_INIT_ATTEMPTS \<and>
   (MAX_INIT_ATTEMPTS \<le> initializationAttempts s \<and> \<not> isInitializing s \<longrightarrow>
      sessionCleans (initializeClient init_ok s) = sessionCleans s + 1 \<and>
      initializationAttempts (initializeClient init_ok s) = 1 \<and>
      begin_initializeClient s = (cleanSession s, [Init_await_cleanSession])) \<and>
   initializationAttempts (fst (resume Init_await_cleanSession fulfilled s')) = 1 \<and>
   (MAX_INIT_ATTEMPTS \<le> initializationAttempts s \<and> isInitializing s \<longrightarrow>
      initializeClient init_ok s = s)"
proof (intro conjI impI)
  have "initializationAttempts (fst (begin_initializeClient initial_state))
      \<le> MAX_INIT_ATTEMPTS"
    by (rule begin_initializeClient_attempts_le) (simp add: initial_state_def)
  then show "initializationAttempts (fst (task_run ts (begin_initializeClient initial_state)))
      \<le> MAX_INIT_ATTEMPTS"
    by (rule task_run_attempts_le)
next
  show "initializationAttempts (run es (startServer ok0)) \<le> MAX_INIT_ATTEMPTS"
    by (rule run_attempts_le) (rule startServer_attempts_le)
next
  assume "MAX_INIT_ATTEMPTS \<le> initializationAttempts s \<and> \<not> isInitializing s"
  then show "sessionCleans (initializeClient init_ok s) = sessionCleans s + 1"
    by (simp add: handler_defs Let_def split: option.splits)
next
  assume "MAX_INIT_ATTEMPTS \<le> initializationAttempts s \<and> \<not> isInitializing s"
  then show "initializationAttempts (initializeClient init_ok s) = 1"
    by (simp add: handler_defs Let_def split: option.splits)
next
  assume "MAX_INIT_ATTEMPTS \<le> initializationAttempts s \<and> \<not> isInitializing s"
  then show "begin_initializeClient s = (cleanSession s, [Init_await_cleanSession])"
    by (simp add: begin_initializeClient_def)
next
  show "initializationAttempts (fst (resume Init_await_cleanSession fulfilled s')) = 1"
    by (simp add: begin_attempt_attempts)
next
  assume "MAX_INIT_ATTEMPTS \<le> initializationAttempts s \<and> isInitializing s"
  then show "initializeClient init_ok s = s"
    by (simp add: initializeClient_def)
qed

theorem attempts_bounded_by_reset_witness:
  "MAX_INIT_ATTEMPTS \<le>
     initializationAttempts
       (run [AuthFailure ''a'', TimerFired 0 True, AuthFailure ''b'', TimerFired 0 True,
             AuthFailure ''c''] (startServer True)) \<and>
   \<not> isInitializing
       (run [AuthFailure ''a'', TimerFired 0 True, AuthFailure ''b'', TimerFired 0 True,
             AuthFailure ''c''] (startServer True)) \<and>
   sessionCleans
     (initializeClient True
       (run [AuthFailure ''a'', TimerFired 0 True, AuthFailure ''b'', TimerFired 0 True,
             AuthFailure ''c''] (startServer True))) = 3 \<and>
   initializationAttempts
     (initializeClient True
       (run [AuthFailure ''a'', TimerFired 0 True, AuthFailure ''b'', TimerFired 0 True,
             AuthFailure ''c''] (startServer True))) = 1 \<and>
   MAX_INIT_ATTEMPTS \<le>
     initializationAttempts
       (run [AuthFailure ''a'', TimerFired 0 True, AuthFailure ''b'', TimerFired 0 True]
          (startServer True)) \<and>
   isInitializing
       (run [AuthFailure ''a'', TimerFired 0 True, AuthFailure ''b'', TimerFired 0 True]
          (startServer True)) \<and>
   initializationAttempts
     (initializeClient True
       (run [AuthFailure ''a'', TimerFired 0 True, AuthFailure ''b'', TimerFired 0 True]
          (startServer True))) = 3"
proof -
  let ?u = "run [AuthFailure ''a'', TimerFired 0 True, AuthFailure ''b'', TimerFired 0 True,
             AuthFailure ''c''] (startServer True)"
  let ?r = "run [AuthFailure ''a'', TimerFired 0 True, AuthFailure ''b'', TimerFired 0 True]
          (startServer True)"
  have u: "MAX_INIT_ATTEMPTS \<le> initializationAttempts ?u \<and> \<not> isInitializing ?u"
    unfolding retries_used_up by (simp add: MAX_INIT_ATTEMPTS_def)
  have r: "MAX_INIT_ATTEMPTS \<le> initializationAttempts ?r \<and> isInitializing ?r"
    unfolding third_attempt_running by (simp add: MAX_INIT_ATTEMPTS_def)
  have cu: "sessionCleans ?u = 2"
    unfolding retries_used_up by simp
  have ar: "initializationAttempts ?r = 3"
    unfolding third_attempt_running by simp
  from attempts_bounded_by_reset [where s = ?u and init_ok = True] u
  have 1: "sessionCleans (initializeClient True ?u) = sessionCleans ?u + 1"
    and 2: "initializationAttempts (initializeClient True ?u) = 1"
    by blast+
  from attempts_bounded_by_reset [where s = ?r and init_ok = True] r
  have 3: "initializeClient True ?r = ?r"
    by blast
  from u r 1 2 cu show ?thesis
    unfolding 3 ar by simp
qed

subsection \<open>Authentication failure\<close>






text \<open>
  C3, as the code has it. After \<^verbatim>\<open>startServer()\<close> and three \<^verbatim>\<open>auth_failure\<close> events
  in a row, the first two each followed by the retry they schedule, the session has been
  cleaned twice, no timer is pending, the lock is clear, and the attempt counter stands
  at the ceiling, 3.
\<close>

theorem three_auth_failures:
  "run [AuthFailure m1, TimerFired 0 True, AuthFailure m2, TimerFired 0 True, AuthFailure m3]
     (startServer True) =
     \<lparr>client = Some 2, isClientReady = False, qrCodeString = None,
      initializationAttempts = MAX_INIT_ATTEMPTS, isInitializing = False, timers = [],
      sessionCleans = 2, created = 3, destroyed = [0, 1]\<rparr>"
  by (simp add: eval_defs)

text \<open>
  C3, as the specification states it, asks for a counter of 0 at the end of that
  scenario. The counter is 3.
\<close>

theorem three_auth_failures_counter_not_zero:
  "initializationAttempts
     (run [AuthFailure ''auth failed'', TimerFired 0 True,
           AuthFailure ''auth failed'', TimerFired 0 True,
           AuthFailure ''auth failed''] (startServer True)) \<noteq> 0"
  by (simp add: eval_defs)

subsection \<open>Disconnection\<close>

text \<open>
  C4. The \<^verbatim>\<open>disconnected\<close> handler always clears readiness. For the reason
  \<^verbatim>\<open>'LOGOUT'\<close> that is all it does. For every other reason it also registers exactly one
  timer, of 10000 ms, that calls \<^verbatim>\<open>initializeClient()\<close>. The delay is longer than the
  delay of the one timer that the \<^verbatim>\<open>auth_failure\<close> handler registers when it retries.
\<close>

theorem disconnected_reconnect_policy:
  "isClientReady (on_disconnected reason s) = False \<and>
   (reason = ''LOGOUT'' \<longrightarrow> on_disconnected reason s = s\<lparr>isClientReady := False\<rparr>) \<and>
   (reason \<noteq> ''LOGOUT'' \<longrightarrow>
      on_disconnected reason s =
        s\<lparr>isClientReady := False, timers := timers s @ [(InitializeClient, 10000)]\<rparr>) \<and>
   (initializationAttempts s' < MAX_INIT_ATTEMPTS \<longrightarrow>
      (\<exists>d. d < 10000 \<and>
         timers (on_auth_failure msg s') = timers s' @ [(InitializeClient, d)]))"
  by (simp add: on_disconnected_def on_auth_failure_def Let_def setTimeout_def cleanSession_def)

theorem disconnected_reconnect_policy_witness:
  "''NETWORK_ERROR'' \<noteq> ''LOGOUT'' \<and>
   timers (on_disconnected ''NETWORK_ERROR''
             (run [Qr ''ABC123'', Authenticated, Ready] (startServer True))) =
     [(InitializeClient, 10000)] \<and>
   \<not> isClientReady
       (on_disconnected ''NETWORK_ERROR''
          (run [Qr ''ABC123'', Authenticated, Ready] (startServer True))) \<and>
   timers (on_disconnected ''LOGOUT''
             (run [Qr ''ABC123'', Authenticated, Ready] (startServer True))) = [] \<and>
   initializationAttempts (startServer True) < MAX_INIT_ATTEMPTS \<and>
   (\<exists>d. d < 10000 \<and>
      timers (on_auth_failure ''auth'' (startServer True)) =
        timers (startServer True) @ [(InitializeClient, d)])"
proof -
  let ?c = "run [Qr ''ABC123'', Authenticated, Ready] (startServer True)"
  have n: "''NETWORK_ERROR'' \<noteq> ''LOGOUT''"
    by simp
  have a: "initializationAttempts (startServer True) < MAX_INIT_ATTEMPTS"
    by (simp add: startServer_True MAX_INIT_ATTEMPTS_def)
  have t: "timers ?c = []"
    unfolding connected by simp
  from disconnected_reconnect_policy [of "''NETWORK_ERROR''" ?c "startServer True" "''auth''"] n a
  have 1: "on_disconnected ''NETWORK_ERROR'' ?c =
        ?c\<lparr>isClientReady := False, timers := timers ?c @ [(InitializeClient, 10000)]\<rparr>"
    and 2: "\<exists>d. d < 10000 \<and>
      timers (on_auth_failure ''auth'' (startServer True)) =
        timers (startServer True) @ [(InitializeClient, d)]"
    by blast+
  from disconnected_reconnect_policy [of "''LOGOUT''" ?c "startServer True" "''auth''"]
  have 3: "on_disconnected ''LOGOUT'' ?c = ?c\<lparr>isClientReady := False\<rparr>"
    by blast
  from 1 t have 4: "timers (on_disconnected ''NETWORK_ERROR'' ?c) = [(InitializeClient, 10000)] \<and>
      \<not> isClientReady (on_disconnected ''NETWORK_ERROR'' ?c)"
    by simp
  from 3 t have 5: "timers (on_disconnected ''LOGOUT'' ?c) = []"
    by simp
  from n a 2 4 5 show ?thesis
    by blast
qed

subsection \<open>Forced restart\<close>

text \<open>
  C6 at a state the module really takes: \<^verbatim>\<open>startServer()\<close> has created client 0, the
  client has shown a code, and the initialization still holds \<^verbatim>\<open>isInitializing\<close>.
  \<^verbatim>\<open>POST /restart\<close> there clears readiness, sets the counter to 0 and destroys client 0,
  but its call of \<^verbatim>\<open>initializeClient()\<close> is stopped by the guard: no client is created,
  \<^verbatim>\<open>client\<close> still names the destroyed client 0, and the lock stays set. The endpoint
  answers "Client restart initiated" all the same.
\<close>

theorem restart_while_locked:
  "isInitializing (on_qr ''ABC123'' (startServer True)) \<and>
   client (on_qr ''ABC123'' (startServer True)) = Some 0 \<and>
   created (on_qr ''ABC123'' (startServer True)) = 1 \<and>
   post_restart True (on_qr ''ABC123'' (startServer True)) =
     (Response 200 (Message ''Client restart initiated''),
      \<lparr>client = Some 0, isClientReady = False, qrCodeString = Some ''ABC123'',
       initializationAttempts = 0, isInitializing = True, timers = [],
       sessionCleans = 0, created = 1, destroyed = [0]\<rparr>)"
  by (simp add: eval_defs)

subsection \<open>The readiness gate\<close>

text \<open>
  C7. \<^verbatim>\<open>requireClientReady\<close> lets the request through exactly when \<^verbatim>\<open>isClientReady\<close>
  is set. Otherwise it answers with status 503, the current \<^verbatim>\<open>qrCodeString\<close> (null
  when there is none) and a message: "Please scan QR code" when a code is present,
  "Client initializing..." when there is none. In both cases the state is left as it
  was. A code is a non-empty string, as every code that the client hands to the \<^verbatim>\<open>qr\<close>
  handler is; for these the truthiness test of line 178 is the test for presence.
\<close>

theorem requireClientReady_contract:
  "qrCodeString s \<noteq> Some '''' \<longrightarrow>
   requireClientReady s =
     (if isClientReady s then Next
      else Rejected (Response 503
             (NotReady ''WhatsApp client not ready'' (qrCodeString s)
                (if qrCodeString s \<noteq> None
                 then ''Please scan QR code'' else ''Client initializing...''))),
      s)"
  by (simp add: requireClientReady_def truthy_def split: option.splits)

theorem requireClientReady_contract_witness:
  "qrCodeString (on_qr ''ABC123'' (startServer True)) \<noteq> Some '''' \<and>
   requireClientReady (on_qr ''ABC123'' (startServer True)) =
     (Rejected (Response 503
        (NotReady ''WhatsApp client not ready'' (Some ''ABC123'') ''Please scan QR code'')),
      on_qr ''ABC123'' (startServer True)) \<and>
   qrCodeString (startServer True) \<noteq> Some '''' \<and>
   requireClientReady (startServer True) =
     (Rejected (Response 503
        (NotReady ''WhatsApp client not ready'' None ''Client initializing...'')),
      startServer True) \<and>
   qrCodeString (run [Qr ''ABC123'', Authenticated, Ready] (startServer True)) \<noteq> Some '''' \<and>
   requireClientReady (run [Qr ''ABC123'', Authenticated, Ready] (startServer True)) =
     (Next, run [Qr ''ABC123'', Authenticated, Ready] (startServer True))"
proof -
  let ?a = "on_qr ''ABC123'' (startServer True)"
  let ?c = "run [Qr ''ABC123'', Authenticated, Ready] (startServer True)"
  have a: "qrCodeString ?a = Some ''ABC123''" "\<not> isClientReady ?a"
    by (simp_all add: startServer_True on_qr_def)
  have i: "qrCodeString (startServer True) = None" "\<not> isClientReady (startServer True)"
    by (simp_all add: startServer_True)
  have c: "qrCodeString ?c = None" "isClientReady ?c"
    unfolding connected by simp_all
  from requireClientReady_contract [of ?a] a
  have 1: "requireClientReady ?a =
     (Rejected (Response 503
        (NotReady ''WhatsApp client not ready'' (Some ''ABC123'') ''Please scan QR code'')),
      ?a)"
    by simp
  from requireClientReady_contract [of "startServer True"] i
  have 2: "requireClientReady (startServer True) =
     (Rejected (Response 503
        (NotReady ''WhatsApp client not ready'' None ''Client initializing...'')),
      startServer True)"
    by simp
  from requireClientReady_contract [of ?c] c
  have 3: "requireClientReady ?c = (Next, ?c)"
    by simp
  from a i c 1 2 3 show ?thesis
    by simp
qed

subsection \<open>The lifetime of the code\<close>

lemma initializeClient_qr: "qrCodeString (initializeClient init_ok s) = qrCodeString s"
  by (simp add: handler_defs Let_def split: option.splits)

lemma step_qr:
  "qrCodeString (step e s) =
     (case e of Qr q \<Rightarrow> Some q | Authenticated \<Rightarrow> None | Ready \<Rightarrow> None
      | _ \<Rightarrow> qrCodeString s)"
  by (cases e)
     (simp_all add: initializeClient_qr fire_timer_def post_restart_def Let_def handler_defs
        get_health_def get_qr_def post_clean_session_def post_logout_def requireClientReady_def
        split: option.splits sum.splits callback.splits)

lemma qr_origin:
  "qrCodeString (run es (startServer init_ok)) = Some q \<Longrightarrow>
   \<exists>es1 es2. es = es1 @ Qr q # es2 \<and>
     (\<forall>e \<in> set es2. e \<noteq> Authenticated \<and> e \<noteq> Ready \<and> (\<forall>q'. e \<noteq> Qr q'))"
proof (induction es rule: rev_induct)
  case Nil
  then show ?case
    by (simp add: startServer_def initializeClient_qr initial_state_def)
next
  case (snoc e es)
  show ?case
  proof (cases "\<exists>q'. e = Qr q'")
    case True
    then obtain q' where e: "e = Qr q'" ..
    with snoc.prems have "q' = q"
      by (simp add: run_append on_qr_def)
    with e have "es @ [e] = es @ Qr q # []"
      by simp
    then show ?thesis
      by fastforce
  next
    case False
    with snoc.prems have q: "qrCodeString (run es (startServer init_ok)) = Some q"
      and e: "e \<noteq> Authenticated" "e \<noteq> Ready"
      by (auto simp: run_append step_qr split: event.splits)
    from snoc.IH [OF q] obtain es1 es2 where
      "es = es1 @ Qr q # es2"
      "\<forall>e \<in> set es2. e \<noteq> Authenticated \<and> e \<noteq> Ready \<and> (\<forall>q'. e \<noteq> Qr q')"
      by blast
    with e False have "es @ [e] = es1 @ Qr q # (es2 @ [e])"
      "\<forall>e' \<in> set (es2 @ [e]). e' \<noteq> Authenticated \<and> e' \<noteq> Ready \<and> (\<forall>q'. e' \<noteq> Qr q')"
      by auto
    then show ?thesis
      by blast
  qed
qed

text \<open>
  C8, as the code has it. The handlers of \<^verbatim>\<open>authenticated\<close> and of \<^verbatim>\<open>ready\<close> set
  \<^verbatim>\<open>qrCodeString\<close> to \<^verbatim>\<open>null\<close>. In every state reached after \<^verbatim>\<open>startServer()\<close>, a
  non-null \<^verbatim>\<open>qrCodeString\<close> is the code of the latest \<^verbatim>\<open>qr\<close> event, and neither
  \<^verbatim>\<open>authenticated\<close> nor \<^verbatim>\<open>ready\<close> has been emitted since that event. Nothing is said
  here about the value after \<^verbatim>\<open>auth_failure\<close> or \<^verbatim>\<open>disconnected\<close>.
\<close>

theorem qr_payload_lifetime:
  "qrCodeString (on_authenticated s) = None \<and>
   qrCodeString (on_ready s) = None \<and>
   (qrCodeString (run es (startServer init_ok)) = Some q \<longrightarrow>
      (\<exists>es1 es2. es = es1 @ Qr q # es2 \<and>
         (\<forall>e \<in> set es2. e \<noteq> Authenticated \<and> e \<noteq> Ready \<and> (\<forall>q'. e \<noteq> Qr q'))))"
  using qr_origin [of es init_ok q]
  by (simp add: on_authenticated_def on_ready_def)

theorem qr_payload_lifetime_witness:
  "qrCodeString (run [Qr ''ABC123'', LoadingScreen 50 ''x''] (startServer True)) =
     Some ''ABC123'' \<and>
   (\<exists>es1 es2. [Qr ''ABC123'', LoadingScreen 50 ''x''] = es1 @ Qr ''ABC123'' # es2 \<and>
      (\<forall>e \<in> set es2. e \<noteq> Authenticated \<and> e \<noteq> Ready \<and> (\<forall>q'. e \<noteq> Qr q')))"
proof -
  have q: "qrCodeString (run [Qr ''ABC123'', LoadingScreen 50 ''x''] (startServer True)) =
      Some ''ABC123''"
    by (simp add: startServer_True on_qr_def on_loading_screen_def)
  with qr_payload_lifetime
    [of initial_state "[Qr ''ABC123'', LoadingScreen 50 ''x'']" True "''ABC123''"]
  show ?thesis
    by blast
qed

text \<open>
  C8, as the specification states it, wants the code to be null in the Failed state.
  After \<^verbatim>\<open>qr("ABC123")\<close> and an \<^verbatim>\<open>auth_failure\<close> the lock and readiness are clear,
  \<^verbatim>\<open>/health\<close> reports \<^verbatim>\<open>not_ready\<close>, and the code is still there.
\<close>

theorem qr_kept_after_auth_failure:
  "run [Qr ''ABC123'', AuthFailure ''auth failed''] (startServer True) =
     \<lparr>client = Some 0, isClientReady = False, qrCodeString = Some ''ABC123'',
      initializationAttempts = 1, isInitializing = False,
      timers = [(InitializeClient, 5000)], sessionCleans = 1, created = 1,
      destroyed = []\<rparr> \<and>
   fst (get_health (run [Qr ''ABC123'', AuthFailure ''auth failed''] (startServer True))) =
     Response 200 (Health ''not_ready'' (Some ''ABC123'') 1 3 False)"
  by (simp add: eval_defs)

subsection \<open>The happy path\<close>

text \<open>
  C9. After \<^verbatim>\<open>startServer()\<close>, whether or not \<^verbatim>\<open>client.initialize()\<close> threw, the events
  \<^verbatim>\<open>qr("ABC123")\<close>, \<^verbatim>\<open>authenticated\<close>, \<^verbatim>\<open>ready\<close> leave the module in a state for which
  \<^verbatim>\<open>GET /health\<close> answers: status \<^verbatim>\<open>ready\<close>, \<^verbatim>\<open>qrCode\<close> null, 0 initialization attempts
  of at most 3, and \<^verbatim>\<open>isInitializing\<close> false.
\<close>

theorem qr_authenticated_ready_status:
  "fst (get_health (run [Qr ''ABC123'', Authenticated, Ready] (startServer init_ok))) =
     Response 200 (Health ''ready'' None 0 3 False)"
  by (simp add: get_health_def on_qr_def on_authenticated_def on_ready_def
      MAX_INIT_ATTEMPTS_def)

subsection \<open>Logout\<close>

text \<open>
  C10. With the client ready, \<^verbatim>\<open>POST /logout\<close> passes the gate and calls
  \<^verbatim>\<open>client.logout()\<close>. When that call throws, the assignment to \<^verbatim>\<open>isClientReady\<close> is
  never reached: the state is unchanged, so the client still counts as ready, and the
  error reaches the error handling middleware, which answers 500 "Internal server
  error" with the message of the error. When the call returns, readiness is cleared,
  nothing else changes, and the answer is "Logged out successfully".
\<close>

theorem logout_failure_keeps_ready:
  "isClientReady s \<and> client s = Some c \<longrightarrow>
     post_logout (Inl msg) s = (Response 500 (ServerError ''Internal server error'' msg), s) \<and>
     isClientReady (snd (post_logout (Inl msg) s)) \<and>
     post_logout (Inr ()) s =
       (Response 200 (Message ''Logged out successfully''), s\<lparr>isClientReady := False\<rparr>)"
  by (simp add: post_logout_def requireClientReady_def error_middleware_def)

theorem logout_failure_keeps_ready_witness:
  "isClientReady (run [Qr ''ABC123'', Authenticated, Ready] (startServer True)) \<and>
   client (run [Qr ''ABC123'', Authenticated, Ready] (startServer True)) = Some 0 \<and>
   post_logout (Inl ''Protocol error'')
       (run [Qr ''ABC123'', Authenticated, Ready] (startServer True)) =
     (Response 500 (ServerError ''Internal server error'' ''Protocol error''),
      run [Qr ''ABC123'', Authenticated, Ready] (startServer True)) \<and>
   isClientReady
     (snd (post_logout (Inl ''Protocol error'')
        (run [Qr ''ABC123'', Authenticated, Ready] (startServer True))))"
proof -
  let ?c = "run [Qr ''ABC123'', Authenticated, Ready] (startServer True)"
  have r: "isClientReady ?c \<and> client ?c = Some 0"
    unfolding connected by simp
  with logout_failure_keeps_ready [of ?c 0 "''Protocol error''"]
  show ?thesis
    by blast
qed

end
